theory Spec2Isabelle
  imports Complex_Main "HOL-Library.Char_ord" "HOL-Library.List_Lexorder"
begin

section \<open>The inventory service: store, statements and request handlers\<close>

text \<open>
  The service keeps two tables, Categories and Products, in one SQLite connection and
  answers seven routes. Each route handler is embedded as a function from the state of the
  connection and the request to the response and the new state.

  Conventions of the embedding:
  \<^item> a table is the list of its rows in rowid order; an UPDATE rewrites every row that its
    WHERE clause selects and reports their number as \<open>this.changes\<close>;
  \<^item> a field of a JSON body that is absent or \<open>null\<close> is \<open>None\<close> and is bound as SQL NULL;
    a present field has the type of its column (a string, a number);
  \<^item> INTEGER columns are \<open>int\<close> (the 64-bit range, past which SQLite turns to floating
    point, is left out), the REAL column price holds a double, which is the rational it
    is, TEXT is \<open>string\<close> compared bytewise (the BINARY collation);
  \<^item> the store fails only for the reasons SQL gives (a constraint, a transaction command
    out of place), with the messages SQLite words them with; faults of the medium are not
    part of the model;
  \<^item> foreign keys are not enforced: the connection never switches them on.
\<close>

subsection \<open>Tables\<close>

record category =
  c_category_id :: int
  c_category_name :: string

record product =
  p_product_id :: int
  p_product_name :: string
  p_price :: rat
  p_stock_quantity :: int
  p_category_id :: "int option"

text \<open>
  The two \<open>seq\<close> fields are the rows of \<open>sqlite_sequence\<close> that AUTOINCREMENT keeps: the
  largest rowid each table has ever held.
\<close>

record tables =
  categories :: "category list"
  products :: "product list"
  seq_categories :: int
  seq_products :: int

text \<open>
  The connection \<open>db\<close>: the current tables and, while a transaction is open, the tables
  as they were at BEGIN.
\<close>

record db =
  cur :: tables
  txn :: "tables option"

datatype store_error =
    Unique_failed string
  | Not_null_failed string
  | Nested_begin
  | No_transaction string

fun message :: "store_error \<Rightarrow> string" where
  "message (Unique_failed col) = ''SQLITE_CONSTRAINT: UNIQUE constraint failed: '' @ col"
| "message (Not_null_failed col) = ''SQLITE_CONSTRAINT: NOT NULL constraint failed: '' @ col"
| "message Nested_begin = ''SQLITE_ERROR: cannot start a transaction within a transaction''"
| "message (No_transaction what) =
     ''SQLITE_ERROR: cannot '' @ what @ '' - no transaction is active''"

text \<open>\<open>String.prototype.includes\<close>: the argument occurs somewhere in the string.\<close>

fun starts_with :: "string \<Rightarrow> string \<Rightarrow> bool" where
  "starts_with s [] = True"
| "starts_with [] (c # cs) = False"
| "starts_with (d # ds) (c # cs) = (d = c \<and> starts_with ds cs)"

fun includes_js :: "string \<Rightarrow> string \<Rightarrow> bool" where
  "includes_js [] sub = (sub = [])"
| "includes_js (d # ds) sub = (starts_with (d # ds) sub \<or> includes_js ds sub)"

subsection \<open>Transaction commands\<close>

definition run_begin :: "db \<Rightarrow> store_error + db" where
  "run_begin s =
     (case txn s of
        Some snap \<Rightarrow> Inl Nested_begin
      | None \<Rightarrow> Inr (s\<lparr>txn := Some (cur s)\<rparr>))"

definition run_rollback :: "db \<Rightarrow> store_error + db" where
  "run_rollback s =
     (case txn s of
        None \<Rightarrow> Inl (No_transaction ''rollback'')
      | Some snap \<Rightarrow> Inr \<lparr>cur = snap, txn = None\<rparr>)"

definition run_commit :: "db \<Rightarrow> store_error + db" where
  "run_commit s =
     (case txn s of
        None \<Rightarrow> Inl (No_transaction ''commit'')
      | Some snap \<Rightarrow> Inr (s\<lparr>txn := None\<rparr>))"

text \<open>
  The handlers pass ROLLBACK a callback that does not look at its error argument: the
  state is whatever the command left.
\<close>

definition rollback_ignoring :: "db \<Rightarrow> db" where
  "rollback_ignoring s = (case run_rollback s of Inl err \<Rightarrow> s | Inr s' \<Rightarrow> s')"

subsection \<open>Data statements\<close>

text \<open>The rowid AUTOINCREMENT gives a new row: one more than any the table has held.\<close>

definition next_rowid :: "int \<Rightarrow> int list \<Rightarrow> int" where
  "next_rowid seq ids = max seq (fold max ids 0) + 1"

text \<open>
  \<open>INSERT INTO Categories (category_name) VALUES (?)\<close>; the result carries \<open>this.lastID\<close>.
\<close>

definition insert_category :: "db \<Rightarrow> string option \<Rightarrow> store_error + (int \<times> db)" where
  "insert_category s name =
     (case name of
        None \<Rightarrow> Inl (Not_null_failed ''Categories.category_name'')
      | Some n \<Rightarrow>
          if n \<in> set (map c_category_name (categories (cur s)))
          then Inl (Unique_failed ''Categories.category_name'')
          else
            let t = cur s;
                i = next_rowid (seq_categories t) (map c_category_id (categories t))
            in Inr (i, s\<lparr>cur := t\<lparr>categories := categories t @
                                      [\<lparr>c_category_id = i, c_category_name = n\<rparr>],
                                    seq_categories := i\<rparr>\<rparr>))"

text \<open>The body of POST /api/products and of PUT /api/products/:id.\<close>

record product_body =
  b_name :: "string option"
  b_price :: "rat option"
  b_quantity :: "int option"
  b_category_id :: "int option"

text \<open>The first NOT NULL column of Products that the body leaves NULL, if any.\<close>

definition null_column :: "product_body \<Rightarrow> string option" where
  "null_column b =
     (if b_name b = None then Some ''Products.product_name''
      else if b_price b = None then Some ''Products.price''
      else if b_quantity b = None then Some ''Products.stock_quantity''
      else None)"

definition row_of :: "int \<Rightarrow> product_body \<Rightarrow> product" where
  "row_of i b =
     \<lparr>p_product_id = i,
      p_product_name = (case b_name b of Some n \<Rightarrow> n | None \<Rightarrow> []),
      p_price = (case b_price b of Some x \<Rightarrow> x | None \<Rightarrow> 0),
      p_stock_quantity = (case b_quantity b of Some q \<Rightarrow> q | None \<Rightarrow> 0),
      p_category_id = b_category_id b\<rparr>"

text \<open>
  \<open>INSERT INTO Products (product_name, price, stock_quantity, category_id)
  VALUES (?, ?, ?, ?)\<close>. \<open>row_of\<close> is reached only when no NOT NULL column is NULL.
\<close>

definition insert_product :: "db \<Rightarrow> product_body \<Rightarrow> store_error + (int \<times> db)" where
  "insert_product s b =
     (case null_column b of
        Some col \<Rightarrow> Inl (Not_null_failed col)
      | None \<Rightarrow>
          let t = cur s;
              i = next_rowid (seq_products t) (map p_product_id (products t))
          in Inr (i, s\<lparr>cur := t\<lparr>products := products t @ [row_of i b],
                                  seq_products := i\<rparr>\<rparr>))"

text \<open>
  \<open>UPDATE Products SET product_name = ?, price = ?, stock_quantity = ?, category_id = ?
  WHERE product_id = ?\<close>; the result carries \<open>this.changes\<close>. A NOT NULL constraint is
  checked on the rows the statement rewrites, so it cannot fail when none is selected.
\<close>

definition update_product :: "db \<Rightarrow> product_body \<Rightarrow> int \<Rightarrow> store_error + (nat \<times> db)" where
  "update_product s b i =
     (let t = cur s;
          n = length (filter (\<lambda>p. p_product_id p = i) (products t))
      in if n = 0 then Inr (0, s)
         else case null_column b of
                Some col \<Rightarrow> Inl (Not_null_failed col)
              | None \<Rightarrow>
                  Inr (n, s\<lparr>cur := t\<lparr>products :=
                         map (\<lambda>p. if p_product_id p = i then row_of i b else p) (products t)\<rparr>\<rparr>))"

text \<open>\<open>DELETE FROM Products WHERE product_id = ?\<close>.\<close>

definition delete_product :: "db \<Rightarrow> int \<Rightarrow> store_error + (nat \<times> db)" where
  "delete_product s i =
     (let t = cur s;
          n = length (filter (\<lambda>p. p_product_id p = i) (products t))
      in Inr (n, s\<lparr>cur := t\<lparr>products := filter (\<lambda>p. p_product_id p \<noteq> i) (products t)\<rparr>\<rparr>))"

text \<open>
  \<open>sql1\<close> of the stock adjustment:
  \<open>UPDATE Products SET stock_quantity = stock_quantity - ?
  WHERE product_id = ? AND stock_quantity >= ?\<close>, bound to
  \<open>[quantity, from_product_id, quantity]\<close>. A comparison with NULL selects no row.
\<close>

definition sql1_selects :: "int option \<Rightarrow> int option \<Rightarrow> product \<Rightarrow> bool" where
  "sql1_selects quantity from_product_id p =
     (case (from_product_id, quantity) of
        (Some i, Some q) \<Rightarrow> p_product_id p = i \<and> p_stock_quantity p \<ge> q
      | _ \<Rightarrow> False)"

definition sql1 :: "db \<Rightarrow> int option \<Rightarrow> int option \<Rightarrow> store_error + (nat \<times> db)" where
  "sql1 s quantity from_product_id =
     (let t = cur s;
          n = length (filter (sql1_selects quantity from_product_id) (products t))
      in Inr (n, s\<lparr>cur := t\<lparr>products :=
                 map (\<lambda>p. if sql1_selects quantity from_product_id p
                          then (case quantity of
                                  Some q \<Rightarrow> p\<lparr>p_stock_quantity := p_stock_quantity p - q\<rparr>
                                | None \<Rightarrow> p)
                          else p) (products t)\<rparr>\<rparr>))"

text \<open>
  \<open>sql2\<close>: \<open>UPDATE Products SET stock_quantity = stock_quantity + ? WHERE product_id = ?\<close>,
  bound to \<open>[quantity, to_product_id]\<close>. Adding NULL gives NULL, which the NOT NULL column
  refuses on any row selected.
\<close>

definition sql2 :: "db \<Rightarrow> int option \<Rightarrow> int option \<Rightarrow> store_error + (nat \<times> db)" where
  "sql2 s quantity to_product_id =
     (let t = cur s;
          n = length (filter (\<lambda>p. Some (p_product_id p) = to_product_id) (products t))
      in if n = 0 then Inr (0, s)
         else case quantity of
                None \<Rightarrow> Inl (Not_null_failed ''Products.stock_quantity'')
              | Some q \<Rightarrow>
                  Inr (n, s\<lparr>cur := t\<lparr>products :=
                         map (\<lambda>p. if Some (p_product_id p) = to_product_id
                                  then p\<lparr>p_stock_quantity := p_stock_quantity p + q\<rparr>
                                  else p) (products t)\<rparr>\<rparr>))"

subsection \<open>Numbers read from the query string\<close>

text \<open>
  A value of the query string is a JavaScript string: the list of its UTF-16 code units.
  \<open>js\<close> gives the JavaScript string of an ASCII text.
\<close>

type_synonym jsstring = "nat list"

definition js :: "string \<Rightarrow> jsstring" where
  "js str = map of_char str"

text \<open>
  What \<open>parseFloat\<close> and \<open>parseInt\<close> return: a JavaScript number, that is \<open>NaN\<close>, an
  infinity or a double, the double as the rational it is (the two zeros are one).
\<close>

datatype jsnum = NaN | Num rat | PosInfinity | NegInfinity

text \<open>
  The Number value of a rational: the nearest double, the even one of two equally near,
  and an infinity from \<open>2 ^ 1024\<close> on. \<open>bits\<close> is the length of a number in binary,
  \<open>ilog2 a\<close> the exponent \<open>e\<close> with \<open>2 ^ e \<le> a < 2 ^ (e + 1)\<close> of a positive \<open>a\<close>; a double
  with that exponent is a multiple of \<open>2 ^ (e - 52)\<close>, and of \<open>2 ^ (- 1074)\<close> below the
  normal range.
\<close>

function bits :: "int \<Rightarrow> nat" where
  "bits n = (if n \<le> 0 then 0 else Suc (bits (n div 2)))"
  by pat_completeness auto
termination
  by (relation "measure nat") auto

declare bits.simps [simp del]

definition pow2 :: "int \<Rightarrow> rat" where
  "pow2 k = (if 0 \<le> k then 2 ^ nat k else 1 / 2 ^ nat (- k))"

definition ilog2 :: "rat \<Rightarrow> int" where
  "ilog2 a =
     (if 1 \<le> a then int (bits \<lfloor>a\<rfloor>) - 1
      else
        let k = int (bits \<lfloor>1 / a\<rfloor>) - 1
        in if pow2 (- k) \<le> a then - k else - k - 1)"

definition round_half_even :: "rat \<Rightarrow> int" where
  "round_half_even r =
     (let f = \<lfloor>r\<rfloor>; d = r - of_int f
      in if d < 1 / 2 then f
         else if 1 / 2 < d then f + 1
         else if even f then f else f + 1)"

definition to_double :: "rat \<Rightarrow> jsnum" where
  "to_double x =
     (if x = 0 then Num 0
      else
        let a = \<bar>x\<bar>;
            e = max (ilog2 a) (- 1022);
            u = pow2 (e - 52);
            v = of_int (round_half_even (a / u)) * u
        in if pow2 1024 \<le> v then (if x < 0 then NegInfinity else PosInfinity)
           else Num (if x < 0 then - v else v))"

text \<open>
  The white space that \<open>parseFloat\<close> and \<open>parseInt\<close> skip: tab, line feed, vertical tab,
  form feed, carriage return, space, no-break space, the other space separators
  (U+1680, U+2000 to U+200A, U+202F, U+205F, U+3000), the line and paragraph separators
  and the byte order mark.
\<close>

definition is_space :: "nat \<Rightarrow> bool" where
  "is_space c =
     (c \<in> set [0x09, 0x0A, 0x0B, 0x0C, 0x0D, 0x20, 0xA0, 0x1680, 0x2028, 0x2029, 0x202F,
               0x205F, 0x3000, 0xFEFF]
      \<or> (0x2000 \<le> c \<and> c \<le> 0x200A))"

text \<open>The value of a digit: \<open>0\<close> to \<open>9\<close>, \<open>a\<close> to \<open>f\<close> and \<open>A\<close> to \<open>F\<close>.\<close>

definition digit_of :: "nat \<Rightarrow> nat option" where
  "digit_of c =
     (if 48 \<le> c \<and> c \<le> 57 then Some (c - 48)
      else if 97 \<le> c \<and> c \<le> 102 then Some (c - 87)
      else if 65 \<le> c \<and> c \<le> 70 then Some (c - 55)
      else None)"

definition is_digit :: "nat \<Rightarrow> nat \<Rightarrow> bool" where
  "is_digit radix c = (case digit_of c of Some d \<Rightarrow> d < radix | None \<Rightarrow> False)"

definition digits_value :: "nat \<Rightarrow> jsstring \<Rightarrow> int" where
  "digits_value radix ds =
     fold (\<lambda>c n. int radix * n + (case digit_of c of Some d \<Rightarrow> int d | None \<Rightarrow> 0)) ds 0"

text \<open>A leading \<open>-\<close> (45) or \<open>+\<close> (43) taken off.\<close>

fun strip_sign :: "jsstring \<Rightarrow> bool \<times> jsstring" where
  "strip_sign [] = (False, [])"
| "strip_sign (c # cs) =
     (if c = 45 then (True, cs)
      else if c = 43 then (False, cs)
      else (False, c # cs))"

text \<open>
  The value of an exponent part, \<open>e\<close> (101) or \<open>E\<close> (69), a sign or none, and digits; 0
  when there is none.
\<close>

definition exponent :: "jsstring \<Rightarrow> int" where
  "exponent r =
     (case r of
        [] \<Rightarrow> 0
      | c # cs \<Rightarrow>
          if c = 101 \<or> c = 69
          then (let (neg, u) = strip_sign cs;
                    ds = takeWhile (is_digit 10) u
                in if ds = [] then 0
                   else if neg then - digits_value 10 ds else digits_value 10 ds)
          else 0)"

text \<open>
  \<open>parseFloat\<close>: leading white space is dropped, then the longest prefix that is a decimal
  literal (a sign, \<open>Infinity\<close> or digits with an optional fraction after \<open>.\<close> (46) and an
  optional exponent) is read, whatever follows it, and its value rounded to a double;
  \<open>NaN\<close> when no prefix is one.
\<close>

definition parseFloat :: "jsstring \<Rightarrow> jsnum" where
  "parseFloat str =
     (let (neg, u) = strip_sign (dropWhile is_space str)
      in if take 8 u = js ''Infinity'' then (if neg then NegInfinity else PosInfinity)
         else
           let ds1 = takeWhile (is_digit 10) u;
               r1 = dropWhile (is_digit 10) u;
               (ds2, r2) = (case r1 of
                              [] \<Rightarrow> ([], r1)
                            | c # cs \<Rightarrow>
                                if c = 46
                                then (takeWhile (is_digit 10) cs, dropWhile (is_digit 10) cs)
                                else ([], r1))
           in if ds1 = [] \<and> ds2 = [] then NaN
              else
                let k = exponent r2 - int (length ds2);
                    m = rat_of_int (digits_value 10 (ds1 @ ds2));
                    v = (if k \<ge> 0 then m * 10 ^ nat k else m / 10 ^ nat (- k))
                in to_double (if neg then - v else v))"

text \<open>
  \<open>parseInt\<close> with no radix: white space, a sign, \<open>0x\<close> or \<open>0X\<close> for base 16, then the
  longest run of digits of the base, whose value is rounded to a double; \<open>NaN\<close> when the
  run is empty.
\<close>

definition parseInt :: "jsstring \<Rightarrow> jsnum" where
  "parseInt str =
     (let (neg, u) = strip_sign (dropWhile is_space str);
          (radix, v) = (if take 2 u = js ''0x'' \<or> take 2 u = js ''0X''
                        then (16, drop 2 u) else (10, u));
          ds = takeWhile (is_digit radix) v
      in if ds = [] then NaN
         else to_double (if neg then - rat_of_int (digits_value radix ds)
                         else rat_of_int (digits_value radix ds)))"

subsection \<open>The product listing's filter\<close>

text \<open>
  The four query parameters of GET /api/products, each the text it was given as, after the
  decoding of the URL; \<open>None\<close> is a parameter not given. The arrays and objects that the
  query parser builds from a name that is repeated or has brackets are left out.
\<close>

record query =
  minPrice :: "jsstring option"
  maxPrice :: "jsstring option"
  minQty :: "jsstring option"
  maxQty :: "jsstring option"

text \<open>
  The test \<open>if (v)\<close> on a string that may be missing: given and not the empty string.
\<close>

definition truthy :: "'a list option \<Rightarrow> bool" where
  "truthy v = (case v of None \<Rightarrow> False | Some str \<Rightarrow> str \<noteq> [])"

datatype clause = Price_ge | Price_le | Qty_ge | Qty_le

fun sql_of :: "clause \<Rightarrow> string" where
  "sql_of Price_ge = ''p.price >= ?''"
| "sql_of Price_le = ''p.price <= ?''"
| "sql_of Qty_ge = ''p.stock_quantity >= ?''"
| "sql_of Qty_le = ''p.stock_quantity <= ?''"

text \<open>
  One \<open>if (v) { whereClauses.push(c); params.push(parse(v)); }\<close> block, on the pair
  \<open>(whereClauses, params)\<close>.
\<close>

definition push_bound ::
  "jsstring option \<Rightarrow> clause \<Rightarrow> (jsstring \<Rightarrow> jsnum) \<Rightarrow> clause list \<times> jsnum list
   \<Rightarrow> clause list \<times> jsnum list" where
  "push_bound v c parse acc =
     (case v of
        None \<Rightarrow> acc
      | Some str \<Rightarrow> if str \<noteq> [] then (fst acc @ [c], snd acc @ [parse str]) else acc)"

definition build_filter :: "query \<Rightarrow> clause list \<times> jsnum list" where
  "build_filter q =
     push_bound (maxQty q) Qty_le parseInt
       (push_bound (minQty q) Qty_ge parseInt
          (push_bound (maxPrice q) Price_le parseFloat
             (push_bound (minPrice q) Price_ge parseFloat ([], []))))"

text \<open>
  A comparison of a column with a bound parameter. \<open>NaN\<close> is bound as NULL, and a
  comparison with NULL selects no row.
\<close>

fun col_ge :: "rat \<Rightarrow> jsnum \<Rightarrow> bool" where
  "col_ge x NaN = False"
| "col_ge x (Num y) = (x \<ge> y)"
| "col_ge x PosInfinity = False"
| "col_ge x NegInfinity = True"

fun col_le :: "rat \<Rightarrow> jsnum \<Rightarrow> bool" where
  "col_le x NaN = False"
| "col_le x (Num y) = (x \<le> y)"
| "col_le x PosInfinity = True"
| "col_le x NegInfinity = False"

fun clause_selects :: "clause \<Rightarrow> jsnum \<Rightarrow> product \<Rightarrow> bool" where
  "clause_selects Price_ge v p = col_ge (p_price p) v"
| "clause_selects Price_le v p = col_le (p_price p) v"
| "clause_selects Qty_ge v p = col_ge (rat_of_int (p_stock_quantity p)) v"
| "clause_selects Qty_le v p = col_le (rat_of_int (p_stock_quantity p)) v"

subsection \<open>Queries\<close>

text \<open>\<open>SELECT * FROM Categories ORDER BY category_name\<close>.\<close>

definition all_categories :: "db \<Rightarrow> store_error + category list" where
  "all_categories s = Inr (sort_key c_category_name (categories (cur s)))"

record listing_row =
  row_product_id :: int
  row_product_name :: string
  row_price :: rat
  row_stock_quantity :: int
  row_category_name :: string

definition joined :: "product \<Rightarrow> category \<Rightarrow> listing_row" where
  "joined p c =
     \<lparr>row_product_id = p_product_id p, row_product_name = p_product_name p,
      row_price = p_price p, row_stock_quantity = p_stock_quantity p,
      row_category_name = c_category_name c\<rparr>"

text \<open>
  \<open>SELECT p.product_id, p.product_name, p.price, p.stock_quantity, c.category_name
  FROM Products p JOIN Categories c ON p.category_id = c.category_id\<close>, then
  \<open>WHERE\<close> the clauses joined by \<open>AND\<close> when there are any, then
  \<open>ORDER BY p.product_name\<close>. The join is an inner join: a product gives one row for each
  category whose id equals its \<open>category_id\<close>, and NULL equals nothing.
\<close>

definition all_products :: "db \<Rightarrow> clause list \<Rightarrow> jsnum list \<Rightarrow> store_error + listing_row list" where
  "all_products s whereClauses params =
     Inr (sort_key row_product_name
            (concat (map (\<lambda>p.
               if list_all (\<lambda>(c, v). clause_selects c v p) (zip whereClauses params)
               then map (joined p)
                      (filter (\<lambda>c. p_category_id p = Some (c_category_id c))
                         (categories (cur s)))
               else [])
             (products (cur s)))))"

subsection \<open>Responses\<close>

text \<open>The shapes of JSON the handlers send, and the response with its status code.\<close>

datatype reply =
    Categories_json "category list"
  | Products_json "listing_row list"
  | Error_json string
  | Message_json string
  | Message_error_json string string
  | Id_name_json int "string option"
  | Id_json int
  | Message_changes_json string nat

record response =
  status :: nat
  json :: reply

subsection \<open>The route handlers\<close>

text \<open>GET /api/categories.\<close>

definition listCategories :: "db \<Rightarrow> response \<times> db" where
  "listCategories s =
     (case all_categories s of
        Inl err \<Rightarrow> (\<lparr>status = 500, json = Error_json (message err)\<rparr>, s)
      | Inr rows \<Rightarrow> (\<lparr>status = 200, json = Categories_json rows\<rparr>, s))"

text \<open>GET /api/products.\<close>

definition listProducts :: "db \<Rightarrow> query \<Rightarrow> response \<times> db" where
  "listProducts s q =
     (let (whereClauses, params) = build_filter q
      in case all_products s whereClauses params of
           Inl err \<Rightarrow> (\<lparr>status = 500, json = Error_json (message err)\<rparr>, s)
         | Inr rows \<Rightarrow> (\<lparr>status = 200, json = Products_json rows\<rparr>, s))"

text \<open>POST /api/categories, on the field \<open>name\<close> of the body.\<close>

definition createCategory :: "db \<Rightarrow> string option \<Rightarrow> response \<times> db" where
  "createCategory s name =
     (if \<not> truthy name
      then (\<lparr>status = 400, json = Message_json ''Category name is required''\<rparr>, s)
      else
        case insert_category s name of
          Inl err \<Rightarrow>
            if includes_js (message err) ''UNIQUE constraint failed''
            then (\<lparr>status = 409, json = Message_json ''Category already exists.''\<rparr>, s)
            else (\<lparr>status = 500, json = Error_json (message err)\<rparr>, s)
        | Inr (lastID, s') \<Rightarrow> (\<lparr>status = 201, json = Id_name_json lastID name\<rparr>, s'))"

text \<open>POST /api/products.\<close>

definition createProduct :: "db \<Rightarrow> product_body \<Rightarrow> response \<times> db" where
  "createProduct s b =
     (case insert_product s b of
        Inl err \<Rightarrow> (\<lparr>status = 500, json = Error_json (message err)\<rparr>, s)
      | Inr (lastID, s') \<Rightarrow> (\<lparr>status = 201, json = Id_json lastID\<rparr>, s'))"

text \<open>
  PUT /api/products/:id. The id of the path is text; the INTEGER column it is compared
  with reads it as the integer it writes, which is the argument \<open>id'\<close> here.
\<close>

definition updateProduct :: "db \<Rightarrow> int \<Rightarrow> product_body \<Rightarrow> response \<times> db" where
  "updateProduct s id' b =
     (case update_product s b id' of
        Inl err \<Rightarrow> (\<lparr>status = 500, json = Error_json (message err)\<rparr>, s)
      | Inr (changes, s') \<Rightarrow>
          if changes = 0
          then (\<lparr>status = 404, json = Message_json ''Product not found''\<rparr>, s')
          else (\<lparr>status = 200,
                 json = Message_changes_json ''Updated successfully'' changes\<rparr>, s'))"

text \<open>DELETE /api/products/:id.\<close>

definition deleteProduct :: "db \<Rightarrow> int \<Rightarrow> response \<times> db" where
  "deleteProduct s id' =
     (case delete_product s id' of
        Inl err \<Rightarrow> (\<lparr>status = 500, json = Error_json (message err)\<rparr>, s)
      | Inr (changes, s') \<Rightarrow>
          if changes = 0
          then (\<lparr>status = 404, json = Message_json ''Product not found''\<rparr>, s')
          else (\<lparr>status = 200,
                 json = Message_changes_json ''Deleted successfully'' changes\<rparr>, s'))"

text \<open>
  POST /api/inventory/adjust, the transfer of stock between two products. The callbacks
  nest in the source; here each is the next \<open>case\<close>. A statement that fails leaves the
  tables as they were before it.
\<close>

record adjust_body =
  from_product_id :: "int option"
  to_product_id :: "int option"
  quantity :: "int option"

definition transfer :: "db \<Rightarrow> adjust_body \<Rightarrow> response \<times> db" where
  "transfer s b =
     (case run_begin s of
        Inl err \<Rightarrow>
          (\<lparr>status = 500,
            json = Error_json (''Failed to begin transaction: '' @ message err)\<rparr>, s)
      | Inr s0 \<Rightarrow>
          (case sql1 s0 (quantity b) (from_product_id b) of
             Inl err \<Rightarrow>
               (\<lparr>status = 400,
                 json = Message_error_json
                   ''Transaction rolled back: Insufficient stock or source product not found.''
                   (message err)\<rparr>, rollback_ignoring s0)
           | Inr (changes1, s1) \<Rightarrow>
               if changes1 = 0
               then
                 (\<lparr>status = 400,
                   json = Message_error_json
                     ''Transaction rolled back: Insufficient stock or source product not found.''
                     ''No changes made (Check stock and product ID)''\<rparr>, rollback_ignoring s1)
               else
                 (case sql2 s1 (quantity b) (to_product_id b) of
                    Inl err \<Rightarrow>
                      (\<lparr>status = 400,
                        json = Message_error_json
                          ''Transaction rolled back: Destination product not found.''
                          (message err)\<rparr>, rollback_ignoring s1)
                  | Inr (changes2, s2) \<Rightarrow>
                      if changes2 = 0
                      then
                        (\<lparr>status = 400,
                          json = Message_error_json
                            ''Transaction rolled back: Destination product not found.''
                            ''No changes made to destination product''\<rparr>,
                         rollback_ignoring s2)
                      else
                        (case run_commit s2 of
                           Inl err \<Rightarrow>
                             (\<lparr>status = 500,
                               json = Message_error_json
                                 ''Commit failed (data consistency risk).'' (message err)\<rparr>, s2)
                         | Inr s3 \<Rightarrow>
                             (\<lparr>status = 200,
                               json = Message_json
                                 ''Inventory adjustment successful (Atomic Transaction).''\<rparr>,
                              s3)))))"

subsection \<open>Reading the store\<close>

text \<open>The row of Products with a given id, and the rows of Categories with a given name.\<close>

definition product_of :: "db \<Rightarrow> int \<Rightarrow> product option" where
  "product_of s i = find (\<lambda>p. p_product_id p = i) (products (cur s))"

definition stock_of :: "db \<Rightarrow> int \<Rightarrow> int option" where
  "stock_of s i = map_option p_stock_quantity (product_of s i)"

definition named :: "db \<Rightarrow> string \<Rightarrow> category list" where
  "named s n = filter (\<lambda>c. c_category_name c = n) (categories (cur s))"

text \<open>
  What the schema keeps true of the tables: \<open>product_id\<close> and \<open>category_id\<close> are primary
  keys, \<open>category_name\<close> is UNIQUE. A request finds the connection with no transaction
  open, since every handler closes the one it opens.
\<close>

definition keys_ok :: "db \<Rightarrow> bool" where
  "keys_ok s =
     (distinct (map p_product_id (products (cur s))) \<and>
      distinct (map c_category_id (categories (cur s))) \<and>
      distinct (map c_category_name (categories (cur s))))"

definition idle :: "db \<Rightarrow> bool" where
  "idle s = (txn s = None)"

definition stock_nonneg :: "db \<Rightarrow> bool" where
  "stock_nonneg s = list_all (\<lambda>p. 0 \<le> p_stock_quantity p) (products (cur s))"

text \<open>
  The database after the startup of \<open>server.js\<close> on a new file: the three seeded
  categories and the three seeded products. The prices are the doubles that the literals
  \<open>699.99\<close>, \<open>14.50\<close> and \<open>0.99\<close> of the source denote.
\<close>

definition seeded :: db where
  "seeded =
     \<lparr>cur =
        \<lparr>categories =
           [\<lparr>c_category_id = 1, c_category_name = ''Electronics''\<rparr>,
            \<lparr>c_category_id = 2, c_category_name = ''Books''\<rparr>,
            \<lparr>c_category_id = 3, c_category_name = ''Groceries''\<rparr>],
         products =
           [\<lparr>p_product_id = 1, p_product_name = ''Laptop'', p_price = 3078588577307689 / 4398046511104,
             p_stock_quantity = 10, p_category_id = Some 1\<rparr>,
            \<lparr>p_product_id = 2, p_product_name = ''Science Fiction Novel'', p_price = 29 / 2,
             p_stock_quantity = 50, p_category_id = Some 2\<rparr>,
            \<lparr>p_product_id = 3, p_product_name = ''Apples'', p_price = 4458563631096791 / 4503599627370496,
             p_stock_quantity = 200, p_category_id = Some 3\<rparr>],
         seq_categories = 3,
         seq_products = 3\<rparr>,
      txn = None\<rparr>"

text \<open>
  What \<open>sql1\<close> and \<open>sql2\<close> do to one row when their parameters are not NULL, and the sum
  of the stock of two products.
\<close>

definition debit :: "int \<Rightarrow> int \<Rightarrow> product \<Rightarrow> product" where
  "debit i q p =
     (if p_product_id p = i \<and> q \<le> p_stock_quantity p
      then p\<lparr>p_stock_quantity := p_stock_quantity p - q\<rparr> else p)"

definition credit :: "int \<Rightarrow> int \<Rightarrow> product \<Rightarrow> product" where
  "credit j q p =
     (if p_product_id p = j then p\<lparr>p_stock_quantity := p_stock_quantity p + q\<rparr> else p)"


text \<open>
  For a clause of the listing's filter: the query parameter it comes from, the function
  that parses it, and the number bound to its placeholder.
\<close>

definition param_of :: "query \<Rightarrow> clause \<Rightarrow> jsstring option" where
  "param_of q c =
     (case c of Price_ge \<Rightarrow> minPrice q | Price_le \<Rightarrow> maxPrice q
              | Qty_ge \<Rightarrow> minQty q | Qty_le \<Rightarrow> maxQty q)"

definition parser_of :: "clause \<Rightarrow> jsstring \<Rightarrow> jsnum" where
  "parser_of c = (case c of Price_ge \<Rightarrow> parseFloat | Price_le \<Rightarrow> parseFloat
                          | Qty_ge \<Rightarrow> parseInt | Qty_le \<Rightarrow> parseInt)"

definition bound_param :: "query \<Rightarrow> clause \<Rightarrow> jsnum" where
  "bound_param q c = (case param_of q c of Some v \<Rightarrow> parser_of c v | None \<Rightarrow> NaN)"

text \<open>The query with no bound, and the seeded rows with one product of no category.\<close>

definition no_filters :: query where
  "no_filters = \<lparr>minPrice = None, maxPrice = None, minQty = None, maxQty = None\<rparr>"

definition uncategorized :: db where
  "uncategorized =
     seeded\<lparr>cur := (cur seeded)\<lparr>products := products (cur seeded) @
        [\<lparr>p_product_id = 4, p_product_name = ''Pears'', p_price = 2, p_stock_quantity = 5,
          p_category_id = None\<rparr>]\<rparr>\<rparr>"

section \<open>Properties\<close>

subsection \<open>Rows and their ids\<close>


lemma filter_keeps_id:
  assumes "\<And>p. p_product_id (f p) = p_product_id p"
  shows "filter (\<lambda>p. p_product_id p = j) (map f xs) =
         map f (filter (\<lambda>p. p_product_id p = j) xs)"
  by (induction xs) (simp_all add: assms)

lemma find_in_set: "find P xs = Some x \<Longrightarrow> x \<in> set xs \<and> P x"
  by (induction xs) (auto split: if_splits)

lemma find_none_filter: "find P xs = None \<Longrightarrow> filter P xs = []"
  by (induction xs) (auto split: if_splits)

lemma find_distinct:
  "distinct (map p_product_id xs) \<Longrightarrow> p \<in> set xs \<Longrightarrow>
   find (\<lambda>r. p_product_id r = p_product_id p) xs = Some p"
  by (induction xs) (auto simp: image_iff)

lemma debit_id [simp]: "p_product_id (debit i q p) = p_product_id p"
  by (simp add: debit_def)

lemma credit_id [simp]: "p_product_id (credit i q p) = p_product_id p"
  by (simp add: credit_def)

subsection \<open>The three ways a transfer ends on an idle connection\<close>

lemma begin_idle: "idle s \<Longrightarrow> run_begin s = Inr (s\<lparr>txn := Some (cur s)\<rparr>)"
  by (simp add: idle_def run_begin_def)

lemma db_eq: "txn s = None \<Longrightarrow> \<lparr>cur = cur s, txn = None\<rparr> = s"
  by (cases s) simp

lemma sql1_selects_some:
  "sql1_selects (Some q) (Some i) = (\<lambda>p. p_product_id p = i \<and> q \<le> p_stock_quantity p)"
  by (rule ext) (simp add: sql1_selects_def)

lemma sql1_some:
  "sql1 s (Some q) (Some i) =
     Inr (length (filter (\<lambda>p. p_product_id p = i \<and> q \<le> p_stock_quantity p)
                    (products (cur s))),
          s\<lparr>cur := (cur s)\<lparr>products := map (debit i q) (products (cur s))\<rparr>\<rparr>)"
  by (simp add: sql1_def sql1_selects_some debit_def Let_def cong: map_cong)

lemma sql2_some:
  "sql2 s (Some q) (Some j) =
     (if filter (\<lambda>p. p_product_id p = j) (products (cur s)) = [] then Inr (0, s)
      else Inr (length (filter (\<lambda>p. p_product_id p = j) (products (cur s))),
                s\<lparr>cur := (cur s)\<lparr>products := map (credit j q) (products (cur s))\<rparr>\<rparr>))"
  by (simp add: sql2_def credit_def Let_def cong: map_cong)

lemma transfer_no_debit:
  assumes "idle s"
    and "filter (\<lambda>p. p_product_id p = i \<and> q \<le> p_stock_quantity p) (products (cur s)) = []"
  shows "transfer s \<lparr>from_product_id = Some i, to_product_id = j, quantity = Some q\<rparr> =
     (\<lparr>status = 400,
       json = Message_error_json
         ''Transaction rolled back: Insufficient stock or source product not found.''
         ''No changes made (Check stock and product ID)''\<rparr>, s)"
  using assms
  by (simp add: transfer_def begin_idle sql1_some rollback_ignoring_def run_rollback_def
      idle_def db_eq)

lemma transfer_no_credit:
  assumes "idle s"
    and "filter (\<lambda>p. p_product_id p = i \<and> q \<le> p_stock_quantity p) (products (cur s)) \<noteq> []"
    and "filter (\<lambda>p. p_product_id p = j) (products (cur s)) = []"
  shows "transfer s \<lparr>from_product_id = Some i, to_product_id = Some j, quantity = Some q\<rparr> =
     (\<lparr>status = 400,
       json = Message_error_json
         ''Transaction rolled back: Destination product not found.''
         ''No changes made to destination product''\<rparr>, s)"
  using assms
  by (simp add: transfer_def begin_idle sql1_some sql2_some filter_keeps_id
      rollback_ignoring_def run_rollback_def idle_def db_eq)

lemma transfer_commits:
  assumes "idle s"
    and "filter (\<lambda>p. p_product_id p = i \<and> q \<le> p_stock_quantity p) (products (cur s)) \<noteq> []"
    and "filter (\<lambda>p. p_product_id p = j) (products (cur s)) \<noteq> []"
  shows "transfer s \<lparr>from_product_id = Some i, to_product_id = Some j, quantity = Some q\<rparr> =
     (\<lparr>status = 200,
       json = Message_json ''Inventory adjustment successful (Atomic Transaction).''\<rparr>,
      s\<lparr>cur := (cur s)\<lparr>products := map (credit j q) (map (debit i q) (products (cur s)))\<rparr>\<rparr>)"
  using assms
  by (simp add: transfer_def begin_idle sql1_some sql2_some filter_keeps_id
      run_commit_def idle_def)


lemma source_selected:
  assumes "product_of s i = Some ps" and "q \<le> p_stock_quantity ps"
  shows "filter (\<lambda>p. p_product_id p = i \<and> q \<le> p_stock_quantity p) (products (cur s)) \<noteq> []"
proof -
  have "ps \<in> set (products (cur s)) \<and> p_product_id ps = i"
    using assms(1) find_in_set [of "\<lambda>p. p_product_id p = i" "products (cur s)" ps]
    by (simp add: product_of_def)
  then have "ps \<in> set (filter (\<lambda>p. p_product_id p = i \<and> q \<le> p_stock_quantity p)
                         (products (cur s)))"
    using assms(2) by simp
  then show ?thesis
    by (metis empty_iff list.set(1))
qed


lemma product_of_selected:
  assumes "product_of s j = Some pd"
  shows "filter (\<lambda>p. p_product_id p = j) (products (cur s)) \<noteq> []"
proof -
  have "pd \<in> set (filter (\<lambda>p. p_product_id p = j) (products (cur s)))"
    using assms find_in_set [of "\<lambda>p. p_product_id p = j" "products (cur s)" pd]
    by (simp add: product_of_def)
  then show ?thesis
    by (metis empty_iff list.set(1))
qed

subsection \<open>A transfer between two products\<close>




subsection \<open>A transfer the source cannot cover\<close>

text \<open>
  C2: for every transfer, on an idle connection over tables whose keys are unique, where
  the source product does not exist or its \<open>stock_quantity\<close> is less than \<open>quantity\<close>,
  the response is the 400 "insufficient stock or source product not found" fault and the
  state of the connection afterwards is the state before: the transaction is rolled back
  and no row has changed. The destination may be anything, also absent.
\<close>

theorem transfer_insufficient_rolls_back:
  assumes "idle s" and "keys_ok s"
    and "case product_of s i of None \<Rightarrow> True | Some p \<Rightarrow> p_stock_quantity p < q"
  shows "transfer s \<lparr>from_product_id = Some i, to_product_id = j, quantity = Some q\<rparr> =
     (\<lparr>status = 400,
       json = Message_error_json
         ''Transaction rolled back: Insufficient stock or source product not found.''
         ''No changes made (Check stock and product ID)''\<rparr>, s)"
proof -
  let ?xs = "products (cur s)"
  have d: "distinct (map p_product_id ?xs)"
    using assms(2) by (simp add: keys_ok_def)
  have "\<not> (p_product_id p = i \<and> q \<le> p_stock_quantity p)" if row: "p \<in> set ?xs" for p
  proof
    assume sel: "p_product_id p = i \<and> q \<le> p_stock_quantity p"
    have "product_of s i = Some p"
      using find_distinct [OF d row] sel by (simp add: product_of_def)
    with assms(3) sel show False by simp
  qed
  then have none: "filter (\<lambda>p. p_product_id p = i \<and> q \<le> p_stock_quantity p) ?xs = []"
    by (simp add: filter_empty_conv)
  show ?thesis
    by (rule transfer_no_debit [OF assms(1) none])
qed

text \<open>
  On the seeded rows: 11 from the Laptop, which has 10, and 1 from product 9, which does
  not exist.
\<close>

theorem transfer_insufficient_rolls_back_witness:
  "idle seeded \<and> keys_ok seeded \<and> stock_of seeded 1 = Some 10 \<and> (10::int) < 11
   \<and> product_of seeded 9 = None
   \<and> status (fst (transfer seeded \<lparr>from_product_id = Some 1, to_product_id = Some 2,
                                    quantity = Some 11\<rparr>)) = 400
   \<and> snd (transfer seeded \<lparr>from_product_id = Some 1, to_product_id = Some 2,
                            quantity = Some 11\<rparr>) = seeded
   \<and> status (fst (transfer seeded \<lparr>from_product_id = Some 9, to_product_id = Some 2,
                                    quantity = Some 1\<rparr>)) = 400
   \<and> snd (transfer seeded \<lparr>from_product_id = Some 9, to_product_id = Some 2,
                            quantity = Some 1\<rparr>) = seeded"
proof -
  have i: "idle seeded" and k: "keys_ok seeded"
    by (simp_all add: idle_def keys_ok_def seeded_def)
  have short: "case product_of seeded 1 of None \<Rightarrow> True | Some p \<Rightarrow> p_stock_quantity p < 11"
    and absent: "case product_of seeded 9 of None \<Rightarrow> True | Some p \<Rightarrow> p_stock_quantity p < 1"
    by (simp_all add: product_of_def seeded_def)
  show ?thesis
    using i k transfer_insufficient_rolls_back [OF i k short, of "Some 2"]
      transfer_insufficient_rolls_back [OF i k absent, of "Some 2"]
    by (simp add: stock_of_def product_of_def) (simp add: seeded_def)
qed

subsection \<open>A transfer to a product that does not exist\<close>

text \<open>
  C3: for every transfer, on an idle connection, where the source product exists with
  \<open>stock_quantity \<ge> quantity\<close> (so that the debit applies) and no product has the
  destination id, the response is the 400 "destination product not found" fault, whose
  message is not the one of the insufficient-stock fault, and the state afterwards is the
  state before: the debit is undone.
\<close>

theorem transfer_missing_destination_rolls_back:
  assumes "idle s"
    and "product_of s i = Some ps" and "q \<le> p_stock_quantity ps"
    and "product_of s j = None"
  shows "transfer s \<lparr>from_product_id = Some i, to_product_id = Some j, quantity = Some q\<rparr> =
     (\<lparr>status = 400,
       json = Message_error_json
         ''Transaction rolled back: Destination product not found.''
         ''No changes made to destination product''\<rparr>, s)
     \<and> (\<forall>e. json (fst (transfer s \<lparr>from_product_id = Some i, to_product_id = Some j,
                                    quantity = Some q\<rparr>)) \<noteq>
            Message_error_json
              ''Transaction rolled back: Insufficient stock or source product not found.'' e)"
proof -
  have none: "filter (\<lambda>p. p_product_id p = j) (products (cur s)) = []"
    using assms(4) by (simp add: product_of_def find_none_filter)
  have run: "transfer s \<lparr>from_product_id = Some i, to_product_id = Some j, quantity = Some q\<rparr> =
     (\<lparr>status = 400,
       json = Message_error_json
         ''Transaction rolled back: Destination product not found.''
         ''No changes made to destination product''\<rparr>, s)"
    by (rule transfer_no_credit [OF assms(1) source_selected [OF assms(2,3)] none])
  show ?thesis
    unfolding run by simp
qed

text \<open>The second scenario of the spec: 1 from the Laptop to product 999.\<close>

theorem transfer_missing_destination_rolls_back_witness:
  "idle seeded \<and> stock_of seeded 1 = Some 10 \<and> (1::int) \<le> 10 \<and> product_of seeded 999 = None
   \<and> status (fst (transfer seeded \<lparr>from_product_id = Some 1, to_product_id = Some 999,
                                    quantity = Some 1\<rparr>)) = 400
   \<and> snd (transfer seeded \<lparr>from_product_id = Some 1, to_product_id = Some 999,
                            quantity = Some 1\<rparr>) = seeded
   \<and> stock_of (snd (transfer seeded \<lparr>from_product_id = Some 1, to_product_id = Some 999,
                            quantity = Some 1\<rparr>)) 1 = Some 10"
proof -
  have i: "idle seeded"
    by (simp add: idle_def seeded_def)
  have src: "product_of seeded 1 =
      Some \<lparr>p_product_id = 1, p_product_name = ''Laptop'', p_price = 3078588577307689 / 4398046511104,
            p_stock_quantity = 10, p_category_id = Some 1\<rparr>"
    and dst: "product_of seeded 999 = None"
    by (simp_all add: product_of_def seeded_def)
  have le: "1 \<le> p_stock_quantity \<lparr>p_product_id = 1, p_product_name = ''Laptop'',
      p_price = 3078588577307689 / 4398046511104, p_stock_quantity = 10, p_category_id = Some 1\<rparr>"
    by simp
  show ?thesis
    using i transfer_missing_destination_rolls_back [OF i src le dst]
    by (simp add: stock_of_def src dst)
qed

subsection \<open>A transfer from a product to itself\<close>




subsection \<open>The sign of the stock\<close>

lemma transfer_state:
  "snd (transfer s t) = s \<or>
   (\<exists>i j q. quantity t = Some q \<and>
      snd (transfer s t) =
        s\<lparr>cur := (cur s)\<lparr>products := map (credit j q) (map (debit i q) (products (cur s)))\<rparr>\<rparr>)"
proof (cases "txn s")
  case (Some snap)
  then show ?thesis by (simp add: transfer_def run_begin_def)
next
  case None
  then have idle: "idle s" by (simp add: idle_def)
  show ?thesis
  proof (cases "from_product_id t")
    case fnone: None
    then show ?thesis
      using None
      by (simp add: transfer_def run_begin_def sql1_def sql1_selects_def Let_def
          rollback_ignoring_def run_rollback_def db_eq)
  next
    case (Some i)
    note src = this
    show ?thesis
    proof (cases "quantity t")
      case qnone: None
      then show ?thesis
        using None
        by (simp add: transfer_def run_begin_def sql1_def sql1_selects_def Let_def
            rollback_ignoring_def run_rollback_def db_eq split: option.splits)
    next
      case (Some q)
      note qty = this
      show ?thesis
      proof (cases "filter (\<lambda>p. p_product_id p = i \<and> q \<le> p_stock_quantity p) (products (cur s)) = []")
        case True
        have "t = \<lparr>from_product_id = Some i, to_product_id = to_product_id t, quantity = Some q\<rparr>"
          using src qty by (cases t) simp
        then show ?thesis
          using transfer_no_debit [OF idle True, of "to_product_id t"] by simp
      next
        case False
        note debited = this
        show ?thesis
        proof (cases "to_product_id t")
          case tnone: None
          then show ?thesis
            using None src qty debited
            by (simp add: transfer_def run_begin_def sql1_some sql2_def Let_def
                rollback_ignoring_def run_rollback_def db_eq)
        next
          case (Some j)
          have t: "t = \<lparr>from_product_id = Some i, to_product_id = Some j, quantity = Some q\<rparr>"
            using src qty Some by (cases t) simp
          show ?thesis
          proof (cases "filter (\<lambda>p. p_product_id p = j) (products (cur s)) = []")
            case True
            then show ?thesis
              using transfer_no_credit [OF idle debited True] t by simp
          next
            case False
            have "snd (transfer s t) =
                s\<lparr>cur := (cur s)\<lparr>products := map (credit j q) (map (debit i q) (products (cur s)))\<rparr>\<rparr>"
              using transfer_commits [OF idle debited False] t by simp
            with qty show ?thesis by blast
          qed
        qed
      qed
    qed
  qed
qed

lemma debit_nonneg: "0 \<le> p_stock_quantity p \<Longrightarrow> 0 \<le> p_stock_quantity (debit i q p)"
  by (simp add: debit_def)

lemma credit_nonneg:
  "0 \<le> q \<Longrightarrow> 0 \<le> p_stock_quantity p \<Longrightarrow> 0 \<le> p_stock_quantity (credit j q p)"
  by (simp add: credit_def)

lemma transfer_nonneg:
  assumes "stock_nonneg s"
    and "case quantity t of None \<Rightarrow> True | Some q \<Rightarrow> 0 \<le> q"
  shows "stock_nonneg (snd (transfer s t))"
  using transfer_state [of s t] assms
  by (auto simp: stock_nonneg_def list_all_iff debit_nonneg credit_nonneg)

lemma createProduct_nonneg:
  assumes "stock_nonneg s"
    and "case b_quantity b of None \<Rightarrow> True | Some q \<Rightarrow> 0 \<le> q"
  shows "stock_nonneg (snd (createProduct s b))"
  using assms
  by (auto simp: createProduct_def insert_product_def row_of_def stock_nonneg_def Let_def
      split: option.splits)

lemma updateProduct_nonneg:
  assumes "stock_nonneg s"
    and "case b_quantity b of None \<Rightarrow> True | Some q \<Rightarrow> 0 \<le> q"
  shows "stock_nonneg (snd (updateProduct s i b))"
  using assms
  by (auto simp: updateProduct_def update_product_def row_of_def stock_nonneg_def Let_def
      list_all_iff split: option.splits)

lemma deleteProduct_nonneg:
  "stock_nonneg s \<Longrightarrow> stock_nonneg (snd (deleteProduct s i))"
  by (auto simp: deleteProduct_def delete_product_def stock_nonneg_def Let_def list_all_iff)

lemma createCategory_products:
  "products (cur (snd (createCategory s n))) = products (cur s)"
  by (auto simp: createCategory_def insert_category_def Let_def split: option.splits)

text \<open>
  C4 as stated fails: nothing checks the sign of a quantity. On the seeded rows, a product
  created with quantity -1 has stock -1, the Laptop updated with quantity -1 has stock -1,
  and a transfer of -60 from the Laptop to the novel, which has 50, leaves the novel
  with -10.
\<close>

theorem negative_quantity_counterexample:
  "stock_nonneg seeded
   \<and> stock_of (snd (createProduct seeded
         \<lparr>b_name = Some ''Pears'', b_price = Some 2, b_quantity = Some (- 1),
          b_category_id = Some 3\<rparr>)) 4 = Some (- 1)
   \<and> stock_of (snd (updateProduct seeded 1
         \<lparr>b_name = Some ''Laptop'', b_price = Some 700, b_quantity = Some (- 1),
          b_category_id = Some 1\<rparr>)) 1 = Some (- 1)
   \<and> stock_of (snd (transfer seeded
         \<lparr>from_product_id = Some 1, to_product_id = Some 2, quantity = Some (- 60)\<rparr>)) 2
       = Some (- 10)
   \<and> \<not> stock_nonneg (snd (createProduct seeded
         \<lparr>b_name = Some ''Pears'', b_price = Some 2, b_quantity = Some (- 1),
          b_category_id = Some 3\<rparr>))
   \<and> \<not> stock_nonneg (snd (updateProduct seeded 1
         \<lparr>b_name = Some ''Laptop'', b_price = Some 700, b_quantity = Some (- 1),
          b_category_id = Some 1\<rparr>))
   \<and> \<not> stock_nonneg (snd (transfer seeded
         \<lparr>from_product_id = Some 1, to_product_id = Some 2, quantity = Some (- 60)\<rparr>))"
  by (simp add: seeded_def stock_nonneg_def stock_of_def product_of_def
      createProduct_def insert_product_def null_column_def row_of_def next_rowid_def
      updateProduct_def update_product_def
      transfer_def run_begin_def sql1_def sql1_selects_def sql2_def run_commit_def Let_def)

text \<open>
  C4, amended: when no product has negative stock, no operation of the service that is
  given a quantity that is not negative (or none at all) makes any product's stock
  negative: not \<open>createProduct\<close>, not \<open>updateProduct\<close>, not a transfer, whose debit is
  guarded by \<open>stock_quantity \<ge> quantity\<close>; deleting a product and creating a category do
  not either.
\<close>

theorem stock_nonneg_preserved:
  assumes "stock_nonneg s"
    and "case b_quantity b of None \<Rightarrow> True | Some q \<Rightarrow> 0 \<le> q"
    and "case quantity t of None \<Rightarrow> True | Some q \<Rightarrow> 0 \<le> q"
  shows "stock_nonneg (snd (createProduct s b))
       \<and> stock_nonneg (snd (updateProduct s i b))
       \<and> stock_nonneg (snd (transfer s t))
       \<and> stock_nonneg (snd (deleteProduct s i))
       \<and> stock_nonneg (snd (createCategory s n))"
  using createProduct_nonneg [OF assms(1,2)] updateProduct_nonneg [OF assms(1,2)]
    transfer_nonneg [OF assms(1,3)] deleteProduct_nonneg [OF assms(1)] assms(1)
  by (simp add: stock_nonneg_def createCategory_products)

text \<open>On the seeded rows, with quantity 0 for the product and 10 for the transfer.\<close>

theorem stock_nonneg_preserved_witness:
  "stock_nonneg seeded
   \<and> stock_nonneg (snd (createProduct seeded
         \<lparr>b_name = Some ''Pears'', b_price = Some 2, b_quantity = Some 0,
          b_category_id = Some 3\<rparr>))
   \<and> stock_nonneg (snd (updateProduct seeded 1
         \<lparr>b_name = Some ''Pears'', b_price = Some 2, b_quantity = Some 0,
          b_category_id = Some 3\<rparr>))
   \<and> stock_nonneg (snd (transfer seeded
         \<lparr>from_product_id = Some 1, to_product_id = Some 2, quantity = Some 10\<rparr>))"
proof -
  have s: "stock_nonneg seeded"
    by (simp add: stock_nonneg_def seeded_def)
  have b: "case b_quantity \<lparr>b_name = Some ''Pears'', b_price = Some 2, b_quantity = Some 0,
          b_category_id = Some 3\<rparr> of None \<Rightarrow> True | Some q \<Rightarrow> 0 \<le> q"
    by simp
  have t: "case quantity \<lparr>from_product_id = Some 1, to_product_id = Some 2,
          quantity = Some 10\<rparr> of None \<Rightarrow> True | Some q \<Rightarrow> 0 \<le> q"
    by simp
  show ?thesis
    using s stock_nonneg_preserved [OF s b t, of 1 None] by simp
qed

subsection \<open>Updating and deleting a product\<close>

lemma filter_other_ids:
  "filter (\<lambda>p. p_product_id p = i) xs = [] \<Longrightarrow> filter (\<lambda>p. p_product_id p \<noteq> i) xs = xs"
  by (induction xs) (auto split: if_splits)

lemma find_after_delete: "find (\<lambda>p. p_product_id p = i) (filter (\<lambda>p. p_product_id p \<noteq> i) xs) = None"
  by (induction xs) auto

lemma find_after_update:
  "find (\<lambda>p. p_product_id p = i) xs = Some p0 \<Longrightarrow>
   find (\<lambda>p. p_product_id p = i) (map (\<lambda>p. if p_product_id p = i then row_of i b else p) xs)
     = Some (row_of i b)"
  by (induction xs) (auto simp: row_of_def split: if_splits)

text \<open>
  C8: for every \<open>updateProduct\<close> and \<open>deleteProduct\<close> call the response follows the count
  of rows the statement changed: when the statement runs and changes no row the response
  is 404 "Product not found", when it changes \<open>n > 0\<close> rows the response is 200 with the
  success message and \<open>n\<close>, and only a statement that fails gives 500. The count is zero
  exactly when no product has the id: then both answer 404 and nothing changes, whatever
  the body; when the product exists, the delete answers 200 and the product is gone, and
  the update with no NULL for a NOT NULL column answers 200 and the product is the row the
  body describes.
\<close>

theorem update_delete_by_changes:
  "(\<forall>n s'. update_product s b i = Inr (n, s') \<longrightarrow>
       updateProduct s i b =
         (if n = 0 then \<lparr>status = 404, json = Message_json ''Product not found''\<rparr>
          else \<lparr>status = 200, json = Message_changes_json ''Updated successfully'' n\<rparr>, s'))
   \<and> (\<forall>n s'. delete_product s i = Inr (n, s') \<longrightarrow>
       deleteProduct s i =
         (if n = 0 then \<lparr>status = 404, json = Message_json ''Product not found''\<rparr>
          else \<lparr>status = 200, json = Message_changes_json ''Deleted successfully'' n\<rparr>, s'))
   \<and> (\<forall>e. update_product s b i = Inl e \<longrightarrow>
       updateProduct s i b = (\<lparr>status = 500, json = Error_json (message e)\<rparr>, s))
   \<and> (product_of s i = None \<longrightarrow>
         update_product s b i = Inr (0, s) \<and> delete_product s i = Inr (0, s)
       \<and> updateProduct s i b = (\<lparr>status = 404, json = Message_json ''Product not found''\<rparr>, s)
       \<and> deleteProduct s i = (\<lparr>status = 404, json = Message_json ''Product not found''\<rparr>, s))
   \<and> (product_of s i \<noteq> None \<longrightarrow>
         status (fst (deleteProduct s i)) = 200
       \<and> json (fst (deleteProduct s i)) =
           Message_changes_json ''Deleted successfully''
             (length (filter (\<lambda>p. p_product_id p = i) (products (cur s))))
       \<and> product_of (snd (deleteProduct s i)) i = None)
   \<and> (product_of s i \<noteq> None \<and> null_column b = None \<longrightarrow>
         status (fst (updateProduct s i b)) = 200
       \<and> json (fst (updateProduct s i b)) =
           Message_changes_json ''Updated successfully''
             (length (filter (\<lambda>p. p_product_id p = i) (products (cur s))))
       \<and> product_of (snd (updateProduct s i b)) i = Some (row_of i b))"
proof (intro conjI allI impI)
  fix n s' assume "update_product s b i = Inr (n, s')"
  then show "updateProduct s i b =
         (if n = 0 then \<lparr>status = 404, json = Message_json ''Product not found''\<rparr>
          else \<lparr>status = 200, json = Message_changes_json ''Updated successfully'' n\<rparr>, s')"
    by (simp add: updateProduct_def)
next
  fix n s' assume "delete_product s i = Inr (n, s')"
  then show "deleteProduct s i =
         (if n = 0 then \<lparr>status = 404, json = Message_json ''Product not found''\<rparr>
          else \<lparr>status = 200, json = Message_changes_json ''Deleted successfully'' n\<rparr>, s')"
    by (simp add: deleteProduct_def)
next
  fix e assume "update_product s b i = Inl e"
  then show "updateProduct s i b = (\<lparr>status = 500, json = Error_json (message e)\<rparr>, s)"
    by (simp add: updateProduct_def)
next
  assume "product_of s i = None"
  then have none: "filter (\<lambda>p. p_product_id p = i) (products (cur s)) = []"
    by (simp add: product_of_def find_none_filter)
  show u: "update_product s b i = Inr (0, s)"
    using none by (simp add: update_product_def)
  show d: "delete_product s i = Inr (0, s)"
    using none by (simp add: delete_product_def filter_other_ids)
  show "updateProduct s i b = (\<lparr>status = 404, json = Message_json ''Product not found''\<rparr>, s)"
    using u by (simp add: updateProduct_def)
  show "deleteProduct s i = (\<lparr>status = 404, json = Message_json ''Product not found''\<rparr>, s)"
    using d by (simp add: deleteProduct_def)
next
  assume "product_of s i \<noteq> None"
  then obtain p where p: "product_of s i = Some p" by blast
  have some: "filter (\<lambda>p. p_product_id p = i) (products (cur s)) \<noteq> []"
    by (rule product_of_selected [OF p])
  show "status (fst (deleteProduct s i)) = 200"
    using some by (simp add: deleteProduct_def delete_product_def Let_def)
  show "json (fst (deleteProduct s i)) =
           Message_changes_json ''Deleted successfully''
             (length (filter (\<lambda>p. p_product_id p = i) (products (cur s))))"
    using some by (simp add: deleteProduct_def delete_product_def Let_def)
  show "product_of (snd (deleteProduct s i)) i = None"
    by (simp add: deleteProduct_def delete_product_def Let_def product_of_def find_after_delete)
next
  assume "product_of s i \<noteq> None \<and> null_column b = None"
  then obtain p where p: "product_of s i = Some p" and b: "null_column b = None" by blast
  have some: "filter (\<lambda>p. p_product_id p = i) (products (cur s)) \<noteq> []"
    by (rule product_of_selected [OF p])
  show "status (fst (updateProduct s i b)) = 200"
    using some b by (simp add: updateProduct_def update_product_def Let_def)
  show "json (fst (updateProduct s i b)) =
           Message_changes_json ''Updated successfully''
             (length (filter (\<lambda>p. p_product_id p = i) (products (cur s))))"
    using some b by (simp add: updateProduct_def update_product_def Let_def)
  show "product_of (snd (updateProduct s i b)) i = Some (row_of i b)"
    using some b p
    by (simp add: updateProduct_def update_product_def Let_def product_of_def find_after_update)
qed

text \<open>On the seeded rows: product 7 does not exist, product 2 does.\<close>

theorem update_delete_by_changes_witness:
  "product_of seeded 7 = None \<and> product_of seeded 2 \<noteq> None
   \<and> null_column \<lparr>b_name = Some ''Atlas'', b_price = Some 30, b_quantity = Some 5,
                   b_category_id = Some 2\<rparr> = None
   \<and> status (fst (updateProduct seeded 7 \<lparr>b_name = Some ''Atlas'', b_price = Some 30,
         b_quantity = Some 5, b_category_id = Some 2\<rparr>)) = 404
   \<and> status (fst (deleteProduct seeded 7)) = 404
   \<and> fst (updateProduct seeded 2 \<lparr>b_name = Some ''Atlas'', b_price = Some 30,
         b_quantity = Some 5, b_category_id = Some 2\<rparr>) =
       \<lparr>status = 200, json = Message_changes_json ''Updated successfully'' 1\<rparr>
   \<and> stock_of (snd (updateProduct seeded 2 \<lparr>b_name = Some ''Atlas'', b_price = Some 30,
         b_quantity = Some 5, b_category_id = Some 2\<rparr>)) 2 = Some 5
   \<and> fst (deleteProduct seeded 2) =
       \<lparr>status = 200, json = Message_changes_json ''Deleted successfully'' 1\<rparr>
   \<and> product_of (snd (deleteProduct seeded 2)) 2 = None"
proof -
  let ?b = "\<lparr>b_name = Some ''Atlas'', b_price = Some 30, b_quantity = Some 5,
             b_category_id = Some 2\<rparr>"
  have absent: "product_of seeded 7 = None" and present: "product_of seeded 2 \<noteq> None"
    by (simp_all add: product_of_def seeded_def)
  have full: "null_column ?b = None"
    by (simp add: null_column_def)
  have one: "length (filter (\<lambda>p. p_product_id p = 2) (products (cur seeded))) = 1"
    by (simp add: seeded_def)
  have "fst (updateProduct seeded 2 ?b) =
       \<lparr>status = status (fst (updateProduct seeded 2 ?b)),
        json = json (fst (updateProduct seeded 2 ?b))\<rparr>"
    and "fst (deleteProduct seeded 2) =
       \<lparr>status = status (fst (deleteProduct seeded 2)),
        json = json (fst (deleteProduct seeded 2))\<rparr>"
    by simp_all
  then show ?thesis
    using update_delete_by_changes [of seeded ?b 7] update_delete_by_changes [of seeded ?b 2]
      absent present full one
    by (simp add: stock_of_def row_of_def)
qed

subsection \<open>Creating a category twice\<close>

lemma unique_message:
  "includes_js (message (Unique_failed ''Categories.category_name'')) ''UNIQUE constraint failed''"
  by simp

lemma one_named:
  "distinct (map c_category_name xs) \<Longrightarrow> n \<in> set (map c_category_name xs) \<Longrightarrow>
   length (filter (\<lambda>c. c_category_name c = n) xs) = 1"
proof (induction xs)
  case Nil
  then show ?case by simp
next
  case (Cons x xs)
  show ?case
  proof (cases "c_category_name x = n")
    case True
    then have "filter (\<lambda>c. c_category_name c = n) xs = []"
      using Cons.prems(1) by (force simp: filter_empty_conv image_iff)
    with True show ?thesis by simp
  next
    case False
    with Cons show ?thesis by auto
  qed
qed

lemma createCategory_existing:
  assumes "n \<noteq> []" and "n \<in> set (map c_category_name (categories (cur s)))"
  shows "createCategory s (Some n) =
     (\<lparr>status = 409, json = Message_json ''Category already exists.''\<rparr>, s)"
  using assms by (simp add: createCategory_def truthy_def insert_category_def del: includes_js.simps message.simps add: unique_message)

lemma createCategory_new:
  assumes "n \<noteq> []" and "n \<notin> set (map c_category_name (categories (cur s)))"
  shows "createCategory s (Some n) =
     (\<lparr>status = 201,
       json = Id_name_json
         (next_rowid (seq_categories (cur s)) (map c_category_id (categories (cur s)))) (Some n)\<rparr>,
      s\<lparr>cur := (cur s)\<lparr>categories := categories (cur s) @
           [\<lparr>c_category_id =
               next_rowid (seq_categories (cur s)) (map c_category_id (categories (cur s))),
             c_category_name = n\<rparr>],
         seq_categories :=
           next_rowid (seq_categories (cur s)) (map c_category_id (categories (cur s)))\<rparr>\<rparr>)"
  using assms by (simp add: createCategory_def truthy_def insert_category_def Let_def)

text \<open>
  C7 as stated fails for the empty name: the handler refuses it with 400 before it reaches
  the store, the second time as the first, and no row with that name is stored.
\<close>

theorem createCategory_empty_name_counterexample:
  "status (fst (createCategory seeded (Some ''''))) = 400
   \<and> status (fst (createCategory (snd (createCategory seeded (Some ''''))) (Some ''''))) = 400
   \<and> named (snd (createCategory (snd (createCategory seeded (Some ''''))) (Some ''''))) '''' = []"
  by (simp add: createCategory_def truthy_def named_def seeded_def)

text \<open>
  C7, amended: for every name that is not empty and every pair of \<open>createCategory\<close> calls
  with it, one after the other on tables whose keys are unique, the second call answers
  409 "Category already exists." (the store's UNIQUE error, told by its message, not the
  500 of a raw store error) and changes nothing, and exactly one category row has the
  name afterwards. The first call answers 201 when no category had the name and 409 when
  one had.
\<close>

theorem createCategory_twice_conflict:
  assumes "keys_ok s" and "n \<noteq> []"
  shows "createCategory (snd (createCategory s (Some n))) (Some n) =
           (\<lparr>status = 409, json = Message_json ''Category already exists.''\<rparr>,
            snd (createCategory s (Some n)))
       \<and> length (named (snd (createCategory s (Some n))) n) = 1
       \<and> status (fst (createCategory s (Some n))) = (if named s n = [] then 201 else 409)"
proof (cases "n \<in> set (map c_category_name (categories (cur s)))")
  case True
  have d: "distinct (map c_category_name (categories (cur s)))"
    using assms(1) by (simp add: keys_ok_def)
  have first: "createCategory s (Some n) =
      (\<lparr>status = 409, json = Message_json ''Category already exists.''\<rparr>, s)"
    by (rule createCategory_existing [OF assms(2) True])
  have one: "length (named s n) = 1"
    unfolding named_def by (rule one_named [OF d True])
  then have "named s n \<noteq> []" by auto
  then show ?thesis
    unfolding first using first one by simp
next
  case False
  let ?i = "next_rowid (seq_categories (cur s)) (map c_category_id (categories (cur s)))"
  let ?s1 = "s\<lparr>cur := (cur s)\<lparr>categories := categories (cur s) @
           [\<lparr>c_category_id = ?i, c_category_name = n\<rparr>], seq_categories := ?i\<rparr>\<rparr>"
  have first: "createCategory s (Some n) =
      (\<lparr>status = 201, json = Id_name_json ?i (Some n)\<rparr>, ?s1)"
    by (rule createCategory_new [OF assms(2) False])
  have "n \<in> set (map c_category_name (categories (cur ?s1)))"
    by simp
  then have second: "createCategory ?s1 (Some n) =
      (\<lparr>status = 409, json = Message_json ''Category already exists.''\<rparr>, ?s1)"
    by (rule createCategory_existing [OF assms(2)])
  have none: "named s n = []"
    using False by (auto simp: named_def filter_empty_conv)
  then have one: "length (named ?s1 n) = 1"
    by (simp add: named_def)
  show ?thesis
    unfolding first using second one none by simp
qed

text \<open>On the seeded rows, with the new name Toys.\<close>

theorem createCategory_twice_conflict_witness:
  "keys_ok seeded \<and> ''Toys'' \<noteq> []
   \<and> status (fst (createCategory seeded (Some ''Toys''))) = 201
   \<and> status (fst (createCategory (snd (createCategory seeded (Some ''Toys''))) (Some ''Toys'')))
       = 409
   \<and> length (named (snd (createCategory (snd (createCategory seeded (Some ''Toys'')))
                          (Some ''Toys''))) ''Toys'') = 1"
proof -
  have k: "keys_ok seeded"
    by (simp add: keys_ok_def seeded_def)
  have n: "''Toys'' \<noteq> []"
    by simp
  have "named seeded ''Toys'' = []"
    by (simp add: named_def seeded_def)
  then show ?thesis
    using k createCategory_twice_conflict [OF k n] by simp
qed

subsection \<open>The parsers on some values\<close>

text \<open>
  Leading white space of any kind is skipped, a value is rounded to the nearest double, and
  a value too large is an infinity. The seeded prices are the doubles of their literals.
\<close>

lemma bits_step: "0 < n \<Longrightarrow> bits n = Suc (bits (n div 2))"
  by (subst bits.simps) simp

lemma bits_0: "bits 0 = 0"
  by (subst bits.simps) simp

lemma floor_rat_numeral: "\<lfloor>numeral a / numeral b :: rat\<rfloor> = numeral a div numeral b"
  by (metis floor_divide_of_int_eq of_int_numeral)

lemma space_skipped:
  "is_space c \<Longrightarrow> parseFloat (c # str) = parseFloat str \<and> parseInt (c # str) = parseInt str"
  by (simp add: parseFloat_def parseInt_def)

lemma spaces:
  "is_space 0x20 \<and> is_space 0xA0 \<and> is_space 0xFEFF \<and> is_space 0x2003 \<and> is_space 0x3000
   \<and> \<not> is_space 0x180E \<and> \<not> is_space 0x200B"
  by (simp add: is_space_def)

lemma double_14_5: "to_double (29 / 2) = Num (29 / 2)"
proof -
  have "ilog2 (29 / 2) = 3"
    by (simp add: ilog2_def bits_step bits_0 floor_rat_numeral)
  then show ?thesis
    by (simp add: to_double_def pow2_def round_half_even_def Let_def floor_rat_numeral)
qed

lemma literal_14_5: "parseFloat (js ''14.5'') = to_double (29 / 2)"
  by (simp add: parseFloat_def js_def is_space_def is_digit_def digit_of_def digits_value_def
      exponent_def)

lemma parse_nbsp: "parseFloat (0xA0 # js ''14.5'') = Num (29 / 2)"
  using space_skipped [of "0xA0" "js ''14.5''"] spaces literal_14_5 double_14_5 by simp

lemma double_tenth: "to_double (1 / 10) = Num (3602879701896397 / 36028797018963968)"
proof -
  have "ilog2 (1 / 10) = - 4"
    by (simp add: ilog2_def pow2_def bits_step bits_0 floor_rat_numeral)
  then show ?thesis
    by (simp add: to_double_def pow2_def round_half_even_def Let_def floor_rat_numeral)
qed

lemma literal_tenth: "parseFloat (js ''0.1'') = to_double (1 / 10)"
  by (simp add: parseFloat_def js_def is_space_def is_digit_def digit_of_def digits_value_def
      exponent_def)

lemma literal_long: "parseFloat (js ''699.990000000000000001'') =
    to_double (699990000000000000001 / 1000000000000000000)"
  by (simp add: parseFloat_def js_def is_space_def is_digit_def digit_of_def digits_value_def
      exponent_def)

lemma literal_short: "parseFloat (js ''699.99'') = to_double (69999 / 100)"
  by (simp add: parseFloat_def js_def is_space_def is_digit_def digit_of_def digits_value_def
      exponent_def)

lemma double_long:
  "to_double (699990000000000000001 / 1000000000000000000) = Num (3078588577307689 / 4398046511104)"
proof -
  have "ilog2 (699990000000000000001 / 1000000000000000000) = 9"
    by (simp add: ilog2_def bits_step bits_0 floor_rat_numeral)
  then show ?thesis
    by (simp add: to_double_def pow2_def round_half_even_def Let_def floor_rat_numeral)
qed

lemma double_short: "to_double (69999 / 100) = Num (3078588577307689 / 4398046511104)"
proof -
  have "ilog2 (69999 / 100) = 9"
    by (simp add: ilog2_def bits_step bits_0 floor_rat_numeral)
  then show ?thesis
    by (simp add: to_double_def pow2_def round_half_even_def Let_def floor_rat_numeral)
qed

lemma parse_rounds: "parseFloat (js ''699.990000000000000001'') = parseFloat (js ''699.99'')"
  by (simp add: literal_long literal_short double_long double_short)

lemma double_0_99: "to_double (99 / 100) = Num (4458563631096791 / 4503599627370496)"
proof -
  have "ilog2 (99 / 100) = - 1"
    by (simp add: ilog2_def pow2_def bits_step bits_0 floor_rat_numeral)
  then show ?thesis
    by (simp add: to_double_def pow2_def round_half_even_def Let_def floor_rat_numeral)
qed

lemma parse_int_rounds: "parseInt (js ''9007199254740993'') = Num 9007199254740992"
proof -
  have "parseInt (js ''9007199254740993'') = to_double 9007199254740993"
    by (simp add: parseInt_def js_def is_space_def is_digit_def digit_of_def digits_value_def)
  moreover have "ilog2 9007199254740993 = 53"
    by (simp add: ilog2_def bits_step bits_0)
  then have "to_double 9007199254740993 = Num 9007199254740992"
    by (simp add: to_double_def pow2_def round_half_even_def Let_def floor_rat_numeral)
  ultimately show ?thesis
    by simp
qed

lemma literal_big: "parseFloat (js ''1e400'') = to_double (10 ^ 400)"
  by (simp add: parseFloat_def js_def is_space_def is_digit_def digit_of_def digits_value_def
      exponent_def strip_sign.simps)

lemma ilog_big: "ilog2 (10 ^ 400) = 1328"
  by (simp add: ilog2_def bits_step bits_0)

lemma double_big: "to_double (10 ^ 400) = PosInfinity"
  using ilog_big by (simp add: to_double_def pow2_def round_half_even_def Let_def floor_rat_numeral)

lemma parse_overflow: "parseFloat (js ''1e400'') = PosInfinity"
  by (rule trans [OF literal_big double_big])

text \<open>
  On the seeded rows, \<open>minPrice\<close> given as a no-break space and \<open>14.5\<close> lists the two
  products that cost at least 14.5, and \<open>minPrice=699.99\<close> lists the Laptop.
\<close>

lemma nbsp_listing:
  "map row_product_name (case json (fst (listProducts seeded
       \<lparr>minPrice = Some (0xA0 # js ''14.5''), maxPrice = None, minQty = None, maxQty = None\<rparr>))
     of Products_json rows \<Rightarrow> rows | _ \<Rightarrow> []) = [''Laptop'', ''Science Fiction Novel'']"
  by (simp add: listProducts_def build_filter_def push_bound_def parse_nbsp all_products_def
      seeded_def joined_def)

lemma seeded_price_listing:
  "map row_product_name (case json (fst (listProducts seeded
       \<lparr>minPrice = Some (js ''699.99''), maxPrice = None, minQty = None, maxQty = None\<rparr>))
     of Products_json rows \<Rightarrow> rows | _ \<Rightarrow> []) = [''Laptop'']"
proof -
  have "js ''699.99'' \<noteq> []"
    by (simp add: js_def)
  then show ?thesis
    by (simp add: listProducts_def build_filter_def push_bound_def literal_short double_short
        all_products_def seeded_def joined_def)
qed

subsection \<open>The bounds of the product listing\<close>

lemma push_bound_truthy:
  "push_bound v c parse acc =
     (if truthy v then (fst acc @ [c], snd acc @ [parse (case v of Some str \<Rightarrow> str | None \<Rightarrow> [])])
      else acc)"
  by (cases v) (simp_all add: push_bound_def truthy_def)

lemma build_filter_clauses:
  "fst (build_filter q) =
     filter (\<lambda>c. truthy (param_of q c)) [Price_ge, Price_le, Qty_ge, Qty_le]"
  by (simp add: build_filter_def push_bound_truthy param_of_def)

lemma build_filter_params:
  "snd (build_filter q) = map (bound_param q) (fst (build_filter q))"
  by (auto simp: build_filter_def push_bound_truthy param_of_def bound_param_def parser_of_def
      truthy_def split: option.splits)

lemma listProducts_rows:
  "listProducts s q =
     (\<lparr>status = 200,
       json = Products_json
         (sort_key row_product_name
            (concat (map (\<lambda>p.
               if list_all (\<lambda>(c, v). clause_selects c v p)
                    (zip (fst (build_filter q)) (snd (build_filter q)))
               then map (joined p)
                      (filter (\<lambda>c. p_category_id p = Some (c_category_id c))
                         (categories (cur s)))
               else [])
             (products (cur s)))))\<rparr>, s)"
  by (simp add: listProducts_def all_products_def split: prod.splits)

lemma concat_nothing: "concat (map (\<lambda>p. []) xs) = []"
  by (induction xs) simp_all

lemma nan_selects_nothing: "\<not> clause_selects c NaN p"
  by (cases c) simp_all

lemma in_zip_map: "c \<in> set xs \<Longrightarrow> (c, f c) \<in> set (zip xs (map f xs))"
  by (induction xs) auto

lemma nan_bound_empty:
  assumes "c \<in> set (fst (build_filter q))" and "bound_param q c = NaN"
  shows "\<not> list_all (\<lambda>(c, v). clause_selects c v p)
            (zip (fst (build_filter q)) (snd (build_filter q)))"
proof -
  have "(c, NaN) \<in> set (zip (fst (build_filter q)) (snd (build_filter q)))"
    unfolding build_filter_params [of q]
    using in_zip_map [OF assms(1), of "bound_param q"] assms(2) by simp
  then show ?thesis
    using nan_selects_nothing [of c p] by (force simp: list_all_iff)
qed

lemma abc_given: "js ''abc'' \<noteq> []"
  by (simp add: js_def)

lemma parse_abc: "parseFloat (js ''abc'') = NaN"
  by (simp add: parseFloat_def js_def is_space_def is_digit_def digit_of_def)

text \<open>
  C6 as stated fails for a value that is given and does not parse: with \<open>minPrice=abc\<close>
  the filter has the clause \<open>p.price >= ?\<close> with the parameter \<open>NaN\<close>, where the request
  with no bound has no clause, and the listing of the seeded rows is empty, where the
  request with no bound lists them.
\<close>

theorem invalid_bound_counterexample:
  "parseFloat (js ''abc'') = NaN
   \<and> build_filter \<lparr>minPrice = Some (js ''abc''), maxPrice = None, minQty = None, maxQty = None\<rparr>
       = ([Price_ge], [NaN])
   \<and> build_filter \<lparr>minPrice = None, maxPrice = None, minQty = None, maxQty = None\<rparr> = ([], [])
   \<and> json (fst (listProducts seeded
        \<lparr>minPrice = Some (js ''abc''), maxPrice = None, minQty = None, maxQty = None\<rparr>))
       = Products_json []
   \<and> json (fst (listProducts seeded
        \<lparr>minPrice = None, maxPrice = None, minQty = None, maxQty = None\<rparr>))
       \<noteq> Products_json []"
  by (simp add: parse_abc abc_given build_filter_def push_bound_def listProducts_def all_products_def
      seeded_def joined_def)

text \<open>
  C6, amended: for every product listing request, a bound contributes its clause exactly
  when its value is given and is not the empty string; the clauses come in the order
  minPrice, maxPrice, minQty, maxQty, each with the number \<open>parseFloat\<close> (prices) or
  \<open>parseInt\<close> (quantities) reads from its value as its parameter. No value makes the
  request fail: the response is 200 and the store is as before. A given value that does
  not parse still contributes its clause, with the parameter \<open>NaN\<close>, and the listing is
  then empty; a request whose bounds are all missing or empty is answered as the request
  with no bound.
\<close>

theorem build_filter_supplied_bounds:
  "fst (build_filter q) =
     filter (\<lambda>c. truthy (param_of q c)) [Price_ge, Price_le, Qty_ge, Qty_le]
   \<and> snd (build_filter q) = map (bound_param q) (fst (build_filter q))
   \<and> status (fst (listProducts s q)) = 200
   \<and> snd (listProducts s q) = s
   \<and> ((\<exists>c. truthy (param_of q c) \<and> bound_param q c = NaN) \<longrightarrow>
        json (fst (listProducts s q)) = Products_json [])
   \<and> ((\<forall>c. \<not> truthy (param_of q c)) \<longrightarrow> listProducts s q = listProducts s no_filters)"
proof (intro conjI impI)
  show "fst (build_filter q) =
     filter (\<lambda>c. truthy (param_of q c)) [Price_ge, Price_le, Qty_ge, Qty_le]"
    by (rule build_filter_clauses)
  show "snd (build_filter q) = map (bound_param q) (fst (build_filter q))"
    by (rule build_filter_params)
  show "status (fst (listProducts s q)) = 200"
    by (simp add: listProducts_rows)
  show "snd (listProducts s q) = s"
    by (simp add: listProducts_rows)
next
  assume "\<exists>c. truthy (param_of q c) \<and> bound_param q c = NaN"
  then obtain c where c: "truthy (param_of q c)" "bound_param q c = NaN"
    by blast
  have mem: "c \<in> set [Price_ge, Price_le, Qty_ge, Qty_le]"
    by (cases c) simp_all
  have "c \<in> set (filter (\<lambda>c. truthy (param_of q c)) [Price_ge, Price_le, Qty_ge, Qty_le])"
    unfolding set_filter using mem c(1) by blast
  then have "c \<in> set (fst (build_filter q))"
    by (simp only: build_filter_clauses)
  then have "\<And>p. \<not> list_all (\<lambda>(c, v). clause_selects c v p)
            (zip (fst (build_filter q)) (snd (build_filter q)))"
    using c(2) by (rule nan_bound_empty)
  then show "json (fst (listProducts s q)) = Products_json []"
    by (simp add: listProducts_rows concat_nothing)
next
  assume none: "\<forall>c. \<not> truthy (param_of q c)"
  have "fst (build_filter q) = []"
    unfolding build_filter_clauses using none by simp
  moreover have "fst (build_filter no_filters) = []"
    unfolding build_filter_clauses by (simp add: no_filters_def param_of_def truthy_def)
  ultimately show "listProducts s q = listProducts s no_filters"
    by (simp add: listProducts_rows)
qed

text \<open>
  On the seeded rows: \<open>minPrice=abc&maxPrice=\<close> has the one clause of minPrice and lists
  nothing; \<open>minPrice=\<close> is the request with no bound.
\<close>

theorem build_filter_supplied_bounds_witness:
  "truthy (Some (js ''abc'')) \<and> parseFloat (js ''abc'') = NaN \<and> \<not> truthy (Some []) \<and> \<not> truthy None
   \<and> fst (build_filter \<lparr>minPrice = Some (js ''abc''), maxPrice = Some [], minQty = None,
                         maxQty = None\<rparr>) = [Price_ge]
   \<and> json (fst (listProducts seeded \<lparr>minPrice = Some (js ''abc''), maxPrice = Some [],
                                     minQty = None, maxQty = None\<rparr>)) = Products_json []
   \<and> listProducts seeded \<lparr>minPrice = Some [], maxPrice = None, minQty = None, maxQty = None\<rparr>
       = listProducts seeded no_filters"
proof -
  let ?q = "\<lparr>minPrice = Some (js ''abc''), maxPrice = Some [], minQty = None, maxQty = None\<rparr>"
  let ?e = "\<lparr>minPrice = Some [], maxPrice = None, minQty = None, maxQty = None\<rparr>"
  have nan: "\<exists>c. truthy (param_of ?q c) \<and> bound_param ?q c = NaN"
    by (rule exI [of _ Price_ge])
      (simp add: param_of_def bound_param_def parser_of_def truthy_def parse_abc abc_given)
  have none: "\<forall>c. \<not> truthy (param_of ?e c)"
    by (simp add: param_of_def truthy_def split: clause.splits)
  show ?thesis
    using build_filter_supplied_bounds [of ?q seeded] build_filter_supplied_bounds [of ?e seeded]
      nan none
    by (simp add: truthy_def parse_abc param_of_def abc_given)
qed

subsection \<open>The listings\<close>

lemma listCategories_rows:
  "listCategories s =
     (\<lparr>status = 200,
       json = Categories_json (sort_key c_category_name (categories (cur s)))\<rparr>, s)"
  by (simp add: listCategories_def all_categories_def)

text \<open>
  C9: listing the categories and listing the products (with no filter, and with any) are
  determined by the state of the store and leave it as it is, so that a second listing
  with no write in between returns what the first returned; the rows of the categories
  are all the categories in ascending order of \<open>category_name\<close>, the rows of the products
  are in ascending order of \<open>product_name\<close>.
\<close>

theorem listings_read_only_sorted:
  "snd (listCategories s) = s
   \<and> listCategories (snd (listCategories s)) = listCategories s
   \<and> (\<exists>rows. fst (listCategories s) = \<lparr>status = 200, json = Categories_json rows\<rparr>
          \<and> sorted (map c_category_name rows)
          \<and> set rows = set (categories (cur s)) \<and> length rows = length (categories (cur s)))
   \<and> snd (listProducts s q) = s
   \<and> listProducts (snd (listProducts s q)) q = listProducts s q
   \<and> (\<exists>rows. fst (listProducts s q) = \<lparr>status = 200, json = Products_json rows\<rparr>
          \<and> sorted (map row_product_name rows))"
proof -
  let ?cs = "sort_key c_category_name (categories (cur s))"
  obtain ps where ps: "listProducts s q = (\<lparr>status = 200, json = Products_json ps\<rparr>, s)"
    and ps_sorted: "sorted (map row_product_name ps)"
    using listProducts_rows [of s q] sorted_sort_key by blast
  have cs: "listCategories s = (\<lparr>status = 200, json = Categories_json ?cs\<rparr>, s)"
    by (rule listCategories_rows)
  have cs_sorted: "sorted (map c_category_name ?cs)"
    by (rule sorted_sort_key)
  have cs_all: "set ?cs = set (categories (cur s))" "length ?cs = length (categories (cur s))"
    by simp_all
  have again_c: "listCategories (snd (listCategories s)) = listCategories s"
    unfolding cs by (simp add: cs)
  have again_p: "listProducts (snd (listProducts s q)) q = listProducts s q"
    unfolding ps by (simp add: ps)
  show ?thesis
    using cs cs_sorted cs_all again_c ps ps_sorted again_p by simp
qed

text \<open>On the seeded rows: Books, Electronics, Groceries; Apples, Laptop, the novel.\<close>

theorem listings_read_only_sorted_witness:
  "(\<exists>rows. fst (listCategories seeded) = \<lparr>status = 200, json = Categories_json rows\<rparr>
      \<and> map c_category_name rows = [''Books'', ''Electronics'', ''Groceries''])
   \<and> listCategories (snd (listCategories seeded)) = listCategories seeded
   \<and> (\<exists>rows. fst (listProducts seeded no_filters) = \<lparr>status = 200, json = Products_json rows\<rparr>
      \<and> map row_product_name rows = [''Apples'', ''Laptop'', ''Science Fiction Novel''])
   \<and> listProducts (snd (listProducts seeded no_filters)) no_filters =
       listProducts seeded no_filters"
proof -
  have c: "fst (listCategories seeded) =
      \<lparr>status = 200, json = Categories_json
        [\<lparr>c_category_id = 2, c_category_name = ''Books''\<rparr>,
         \<lparr>c_category_id = 1, c_category_name = ''Electronics''\<rparr>,
         \<lparr>c_category_id = 3, c_category_name = ''Groceries''\<rparr>]\<rparr>"
    by (simp add: listCategories_def all_categories_def seeded_def)
  have p: "map row_product_name
       (sort_key row_product_name
          (concat (map (\<lambda>p.
             if list_all (\<lambda>(c, v). clause_selects c v p)
                  (zip (fst (build_filter no_filters)) (snd (build_filter no_filters)))
             then map (joined p)
                    (filter (\<lambda>c. p_category_id p = Some (c_category_id c))
                       (categories (cur seeded)))
             else [])
           (products (cur seeded))))) = [''Apples'', ''Laptop'', ''Science Fiction Novel'']"
    by (simp add: no_filters_def build_filter_def push_bound_def seeded_def joined_def)
  show ?thesis
    using listings_read_only_sorted [of seeded no_filters] c p
    by (simp add: listProducts_rows)
qed

subsection \<open>Products of no category\<close>

lemma listed_rows:
  assumes "r \<in> set (concat (map (\<lambda>p.
               if sel p
               then map (joined p)
                      (filter (\<lambda>c. p_category_id p = Some (c_category_id c)) cs)
               else []) xs))"
  shows "\<exists>p\<in>set xs. \<exists>c\<in>set cs. sel p \<and> p_category_id p = Some (c_category_id c) \<and> r = joined p c"
  using assms by (auto split: if_splits)

lemma listProducts_from_join:
  assumes "fst (listProducts s q) = \<lparr>status = 200, json = Products_json rows\<rparr>"
    and "r \<in> set rows"
  shows "\<exists>p\<in>set (products (cur s)). \<exists>c\<in>set (categories (cur s)).
           p_category_id p = Some (c_category_id c) \<and> r = joined p c"
proof -
  let ?sel = "\<lambda>p. list_all (\<lambda>(c, v). clause_selects c v p)
                    (zip (fst (build_filter q)) (snd (build_filter q)))"
  let ?joined = "concat (map (\<lambda>p.
               if ?sel p
               then map (joined p)
                      (filter (\<lambda>c. p_category_id p = Some (c_category_id c))
                         (categories (cur s)))
               else []) (products (cur s)))"
  have "rows = sort_key row_product_name ?joined"
    using assms(1) unfolding listProducts_rows by simp
  then have "r \<in> set ?joined"
    using assms(2) by (simp only: set_sort)
  from listed_rows [OF this] show ?thesis by blast
qed

text \<open>
  C10: for every product whose \<open>category_id\<close> is NULL, in tables whose keys are unique,
  and every listing request, with or without filters, the response is the 200 listing and
  no row of it has the product's id: the inner join gives a row only to a product whose
  \<open>category_id\<close> is the id of a category.
\<close>

theorem uncategorized_never_listed:
  assumes "keys_ok s"
    and "p \<in> set (products (cur s))" and "p_category_id p = None"
  shows "\<exists>rows. fst (listProducts s q) = \<lparr>status = 200, json = Products_json rows\<rparr>
           \<and> p_product_id p \<notin> set (map row_product_id rows)"
proof -
  obtain rows where rows: "fst (listProducts s q) = \<lparr>status = 200, json = Products_json rows\<rparr>"
    by (simp add: listProducts_rows)
  have d: "distinct (map p_product_id (products (cur s)))"
    using assms(1) by (simp add: keys_ok_def)
  have "row_product_id r \<noteq> p_product_id p" if mem: "r \<in> set rows" for r
  proof
    assume same: "row_product_id r = p_product_id p"
    obtain p' c where p': "p' \<in> set (products (cur s))"
      and c: "p_category_id p' = Some (c_category_id c)" and r: "r = joined p' c"
      using listProducts_from_join [OF rows mem] by blast
    have "p_product_id p' = p_product_id p"
      using same r by (simp add: joined_def)
    then have "p' = p"
      using find_distinct [OF d p'] find_distinct [OF d assms(2)] by (metis option.inject)
    with c assms(3) show False by simp
  qed
  then have "p_product_id p \<notin> set (map row_product_id rows)"
    by (force simp: image_iff)
  with rows show ?thesis by blast
qed

text \<open>On the seeded rows with the uncategorized product 4 added.\<close>

theorem uncategorized_never_listed_witness:
  "keys_ok uncategorized
   \<and> product_of uncategorized 4 =
       Some \<lparr>p_product_id = 4, p_product_name = ''Pears'', p_price = 2, p_stock_quantity = 5,
             p_category_id = None\<rparr>
   \<and> (\<exists>rows. fst (listProducts uncategorized no_filters) =
         \<lparr>status = 200, json = Products_json rows\<rparr> \<and> 4 \<notin> set (map row_product_id rows))"
proof -
  let ?p = "\<lparr>p_product_id = 4, p_product_name = ''Pears'', p_price = 2, p_stock_quantity = 5,
             p_category_id = None\<rparr>"
  have k: "keys_ok uncategorized"
    by (simp add: keys_ok_def uncategorized_def seeded_def)
  have m: "?p \<in> set (products (cur uncategorized))"
    by (simp add: uncategorized_def)
  have n: "p_category_id ?p = None"
    by simp
  have f: "product_of uncategorized 4 = Some ?p"
    by (simp add: product_of_def uncategorized_def seeded_def)
  show ?thesis
    using k f uncategorized_never_listed [OF k m n, of no_filters] by simp
qed

subsection \<open>What every handler keeps\<close>

text \<open>
  The keys stay unique and the connection stays idle across every handler, so that the
  two assumptions made above hold of every state the service reaches from the seeded one.
\<close>

lemma fold_max_ge: "a \<le> fold max xs (a::int) \<and> (\<forall>x\<in>set xs. x \<le> fold max xs a)"
proof (induction xs arbitrary: a)
  case Nil
  then show ?case by simp
next
  case (Cons x xs)
  have "max x a \<le> fold max xs (max x a)"
    using Cons.IH [of "max x a"] by simp
  then show ?case
    using Cons.IH [of "max x a"] by auto
qed

lemma next_rowid_new: "next_rowid seq ids \<notin> set ids"
proof
  assume "next_rowid seq ids \<in> set ids"
  then have "next_rowid seq ids \<le> fold max ids 0"
    using fold_max_ge [of 0 ids] by blast
  then show False
    by (simp add: next_rowid_def)
qed

lemma ids_after_transfer:
  "map (p_product_id \<circ> (credit j q \<circ> debit i q)) xs = map p_product_id xs"
  by (induction xs) simp_all

lemma ids_after_update:
  "map (p_product_id \<circ> (\<lambda>p. if p_product_id p = i then row_of i b else p)) xs =
   map p_product_id xs"
  by (induction xs) (simp_all add: row_of_def)

lemma handlers_keep_invariants:
  assumes "keys_ok s" and "idle s"
  shows "keys_ok (snd (listCategories s)) \<and> idle (snd (listCategories s))"
    and "keys_ok (snd (listProducts s q)) \<and> idle (snd (listProducts s q))"
    and "keys_ok (snd (createCategory s n)) \<and> idle (snd (createCategory s n))"
    and "keys_ok (snd (createProduct s b)) \<and> idle (snd (createProduct s b))"
    and "keys_ok (snd (updateProduct s i b)) \<and> idle (snd (updateProduct s i b))"
    and "keys_ok (snd (deleteProduct s i)) \<and> idle (snd (deleteProduct s i))"
    and "keys_ok (snd (transfer s t)) \<and> idle (snd (transfer s t))"
proof -
  show "keys_ok (snd (listCategories s)) \<and> idle (snd (listCategories s))"
    using assms by (simp add: listCategories_def all_categories_def)
  show "keys_ok (snd (listProducts s q)) \<and> idle (snd (listProducts s q))"
    using assms by (simp add: listProducts_def all_products_def split: prod.splits)
  show "keys_ok (snd (createCategory s n)) \<and> idle (snd (createCategory s n))"
    using assms next_rowid_new [of "seq_categories (cur s)" "map c_category_id (categories (cur s))"]
    by (auto simp: createCategory_def insert_category_def keys_ok_def idle_def Let_def
        split: option.splits)
  show "keys_ok (snd (createProduct s b)) \<and> idle (snd (createProduct s b))"
    using assms next_rowid_new [of "seq_products (cur s)" "map p_product_id (products (cur s))"]
    by (auto simp: createProduct_def insert_product_def keys_ok_def idle_def Let_def row_of_def
        split: option.splits)
  show "keys_ok (snd (updateProduct s i b)) \<and> idle (snd (updateProduct s i b))"
    using assms
    by (auto simp: updateProduct_def update_product_def keys_ok_def idle_def Let_def
        ids_after_update split: option.splits)
  show "keys_ok (snd (deleteProduct s i)) \<and> idle (snd (deleteProduct s i))"
    using assms
    by (auto simp: deleteProduct_def delete_product_def keys_ok_def idle_def Let_def
        distinct_map_filter)
  show "keys_ok (snd (transfer s t)) \<and> idle (snd (transfer s t))"
    using assms transfer_state [of s t]
    by (auto simp: keys_ok_def idle_def ids_after_transfer)
qed

lemma seeded_invariants: "keys_ok seeded \<and> idle seeded \<and> stock_nonneg seeded"
  by (simp add: keys_ok_def idle_def stock_nonneg_def seeded_def)

end
